theory Spec2Isabelle
  imports Complex_Main "HOL-Library.Multiset" "HOL-Library.Sublist" "HOL-Library.Monad_Syntax"
begin

section \<open>The EU acceptance map: loader and selection layer\<close>

text \<open>
  A shallow embedding of \<^verbatim>\<open>interactive_map_app.py\<close>: the cached loader
  \<^verbatim>\<open>load_data\<close> (read the CSV, relabel the questions, resolve country names,
  map two-letter codes to three-letter ones) and the part of the script that selects a
  question, filters the table and builds the display table.

  A data frame is a list of rows in index order. The embedding covers a CSV whose columns
  \<^verbatim>\<open>question\<close>, \<^verbatim>\<open>code\<close> and \<^verbatim>\<open>acceptance\<close> are present: question cells are
  strings, code cells are strings or missing, acceptance cells are values of a linearly
  ordered numeric type \<open>'v\<close> (pandas' int64, or float64 without NaN). Other columns of the
  file are carried along by the script untouched and are not modelled. The three libraries
  the script calls (pandas, pycountry, streamlit) are not part of the repository; what the
  embedding takes from their documented behaviour is said at each definition.
\<close>

subsection \<open>Exceptions\<close>

text \<open>
  The two exception classes the script names in an \<^verbatim>\<open>except\<close> clause, the
  \<^verbatim>\<open>LookupError\<close> of pycountry, and any other exception, tagged with its class name
  (\<^verbatim>\<open>ParserError\<close>, \<^verbatim>\<open>PermissionError\<close>, ...). A computation that may raise returns
  \<open>py_error + 'a\<close>, \<open>Inl\<close> for the exception.
\<close>

datatype py_error = FileNotFoundError | AttributeError | LookupError | OtherError string

subsection \<open>Rows\<close>

text \<open>
  A cell of the \<^verbatim>\<open>code\<close> column: a string, or the missing value (the float NaN) that
  \<^verbatim>\<open>pd.read_csv\<close> puts for an empty field and for the texts it reads as missing,
  \<^verbatim>\<open>NA\<close> among them.
\<close>

datatype cell = Str string | NaN

record 'v src_row =
  question :: string
  code :: cell
  acceptance :: 'v

text \<open>The frame after \<^verbatim>\<open>df['country_name'] = ...\<close>, and after \<^verbatim>\<open>df['iso_alpha'] = ...\<close>;
  a missing cell (NaN) of \<^verbatim>\<open>iso_alpha\<close> is \<open>None\<close>.\<close>

record 'v named_row = "'v src_row" +
  country_name :: cell

record 'v norm_row = "'v named_row" +
  iso_alpha :: "string option"

subsection \<open>Reading the file\<close>

text \<open>
  The state of a path of the file system: no file, a file that \<^verbatim>\<open>pd.read_csv\<close> parses into
  rows, or a file on which it raises (the tag is the exception's class). \<^verbatim>\<open>pd.read_csv\<close>
  raises \<^verbatim>\<open>FileNotFoundError\<close> exactly when there is no file at the path.
\<close>

datatype 'v csv_file = Rows "'v src_row list" | Unreadable string

type_synonym 'v filesystem = "string \<rightharpoonup> 'v csv_file"

definition csv_path :: string where
  "csv_path = ''EU_Acceptance_QB15_Combined_from_XLSX.csv''"

definition read_csv :: "'v filesystem \<Rightarrow> string \<Rightarrow> py_error + 'v src_row list" where
  "read_csv fs p =
     (case fs p of
        None \<Rightarrow> Inl FileNotFoundError
      | Some (Unreadable tag) \<Rightarrow> Inl (OtherError tag)
      | Some (Rows df) \<Rightarrow> Inr df)"

subsection \<open>Dictionaries and the pandas Series operations\<close>

text \<open>A Python dict literal: a later entry overwrites an earlier one with the same key.\<close>

definition dict :: "('k \<times> 'a) list \<Rightarrow> 'k \<rightharpoonup> 'a" where
  "dict kvs = map_of (rev kvs)"

text \<open>\<^verbatim>\<open>Series.replace(d)\<close>: a value that is a key of \<open>d\<close> becomes \<open>d\<close>'s value for it,
  any other value stays. Each cell is replaced once; no label of \<open>question_mapping\<close>
  below is one of its keys (\<open>question_mapping_labels_not_keys\<close>), so a replaced cell
  could not match a second entry in any case.\<close>

definition series_replace :: "('a \<rightharpoonup> 'a) \<Rightarrow> 'a list \<Rightarrow> 'a list" where
  "series_replace d col = map (\<lambda>x. case d x of Some y \<Rightarrow> y | None \<Rightarrow> x) col"

text \<open>\<^verbatim>\<open>Series.map(d)\<close> with a dict of string keys: a cell that is not a key of \<open>d\<close>,
  a missing cell among them, becomes a missing cell.\<close>

definition series_map :: "(string \<rightharpoonup> 'b) \<Rightarrow> cell list \<Rightarrow> 'b option list" where
  "series_map d col = map (\<lambda>c. case c of Str s \<Rightarrow> d s | NaN \<Rightarrow> None) col"

text \<open>\<^verbatim>\<open>Series.apply(f)\<close>: \<open>f\<close> on every cell in index order; an exception of \<open>f\<close> ends
  the whole call.\<close>

fun series_apply :: "('a \<Rightarrow> py_error + 'b) \<Rightarrow> 'a list \<Rightarrow> py_error + 'b list" where
  "series_apply f [] = Inr []"
| "series_apply f (x # xs) =
     (case f x of
        Inl e \<Rightarrow> Inl e
      | Inr y \<Rightarrow> (case series_apply f xs of Inl e \<Rightarrow> Inl e | Inr ys \<Rightarrow> Inr (y # ys)))"

text \<open>\<^verbatim>\<open>Series.unique()\<close>: the distinct values in order of first appearance.\<close>

fun unique :: "'a list \<Rightarrow> 'a list" where
  "unique [] = []"
| "unique (x # xs) = x # filter (\<lambda>y. y \<noteq> x) (unique xs)"

text \<open>Column assignment: the frame and the new column have the same index, so the cells
  are paired in order.\<close>

definition setitem_question :: "'v src_row list \<Rightarrow> string list \<Rightarrow> 'v src_row list" where
  "setitem_question df col = map2 (\<lambda>r q. r\<lparr>question := q\<rparr>) df col"

definition setitem_country_name :: "'v src_row list \<Rightarrow> cell list \<Rightarrow> 'v named_row list" where
  "setitem_country_name df col =
     map2 (\<lambda>r n. \<lparr>question = question r, code = code r, acceptance = acceptance r,
                  country_name = n\<rparr>) df col"

definition setitem_iso_alpha ::
  "'v named_row list \<Rightarrow> string option list \<Rightarrow> 'v norm_row list" where
  "setitem_iso_alpha df col =
     map2 (\<lambda>r g. \<lparr>question = question r, code = code r, acceptance = acceptance r,
                  country_name = country_name r, iso_alpha = g\<rparr>) df col"

subsection \<open>The loader\<close>

definition question_mapping :: "(string \<times> string) list" where
  "question_mapping =
     [(''Question from sheet 'QB15_1'' @ [CHR 0x27], ''Equal rights for gay, lesbian, and bisexual people''),
      (''Question from sheet 'QB15_2'' @ [CHR 0x27], ''Acceptance of same-sex relationships''),
      (''Question from sheet 'QB15_3'' @ [CHR 0x27], ''Allowance of same-sex marriage throughout Europe''),
      (''Question from sheet 'QB15_4'' @ [CHR 0x27], ''Adoption rights for same-sex couples'')]"

definition code_mapping :: "(string \<times> string) list" where
  "code_mapping =
     [(''BE'', ''BEL''), (''BG'', ''BGR''), (''CZ'', ''CZE''), (''DK'', ''DNK''), (''DE'', ''DEU''),
      (''EE'', ''EST''), (''IE'', ''IRL''), (''GR'', ''GRC''), (''ES'', ''ESP''), (''FR'', ''FRA''),
      (''HR'', ''HRV''), (''IT'', ''ITA''), (''CY'', ''CYP''), (''LV'', ''LVA''), (''LT'', ''LTU''),
      (''LU'', ''LUX''), (''HU'', ''HUN''), (''MT'', ''MLT''), (''NL'', ''NLD''), (''AT'', ''AUT''),
      (''PL'', ''POL''), (''PT'', ''PRT''), (''RO'', ''ROU''), (''SI'', ''SVN''), (''SK'', ''SVK''),
      (''FI'', ''FIN''), (''SE'', ''SWE'')]"

text \<open>
  A record of the pycountry database. The index of the database on \<^verbatim>\<open>alpha_2\<close> is a
  parameter \<open>countries\<close> of the loader. \<^verbatim>\<open>pycountry.countries.get(alpha_2=code)\<close>
  raises \<^verbatim>\<open>LookupError\<close> when the value is not a \<^verbatim>\<open>str\<close>, and returns the record of
  the index or \<^verbatim>\<open>None\<close> otherwise. Reading \<^verbatim>\<open>.name\<close> of \<^verbatim>\<open>None\<close> raises
  \<^verbatim>\<open>AttributeError\<close>.
\<close>

record country =
  alpha_2 :: string
  name :: string

definition countries_get :: "(string \<Rightarrow> country option) \<Rightarrow> cell \<Rightarrow> py_error + country option" where
  "countries_get countries c = (case c of Str s \<Rightarrow> Inr (countries s) | NaN \<Rightarrow> Inl LookupError)"

definition getattr_name :: "country option \<Rightarrow> py_error + string" where
  "getattr_name obj = (case obj of None \<Rightarrow> Inl AttributeError | Some c \<Rightarrow> Inr (name c))"

text \<open>\<^verbatim>\<open>get_country_name\<close>: the \<^verbatim>\<open>try\<close> block is the call of \<^verbatim>\<open>get\<close> followed by
  \<^verbatim>\<open>.name\<close>; only \<^verbatim>\<open>AttributeError\<close> is caught, and then the cell itself is returned.\<close>

definition get_country_name :: "(string \<Rightarrow> country option) \<Rightarrow> cell \<Rightarrow> py_error + cell" where
  "get_country_name countries c =
     (case (case countries_get countries c of Inl e \<Rightarrow> Inl e | Inr obj \<Rightarrow> getattr_name obj) of
        Inr n \<Rightarrow> Inr (Str n)
      | Inl e \<Rightarrow> (if e = AttributeError then Inr c else Inl e))"

text \<open>The body of \<^verbatim>\<open>load_data\<close> after the \<^verbatim>\<open>try\<close> block.\<close>

definition normalize ::
  "(string \<Rightarrow> country option) \<Rightarrow> 'v src_row list \<Rightarrow> py_error + 'v norm_row list" where
  "normalize countries df =
     (let df1 = setitem_question df (series_replace (dict question_mapping) (map question df))
      in case series_apply (get_country_name countries) (map code df1) of
           Inl e \<Rightarrow> Inl e
         | Inr names \<Rightarrow>
             (let df2 = setitem_country_name df1 names
              in Inr (setitem_iso_alpha df2 (series_map (dict code_mapping) (map code df2)))))"

text \<open>
  The function that lines 15 to 48 define, run on the file system as it is at the call:
  \<open>Inr None\<close> is the return value \<^verbatim>\<open>None\<close>, \<open>Inl e\<close> an exception that leaves the
  function. The decorator of line 14 wraps it; the script's call \<^verbatim>\<open>load_data()\<close> is
  \<open>cached_load_data\<close> below.
\<close>

definition load_data ::
  "(string \<Rightarrow> country option) \<Rightarrow> 'v filesystem \<Rightarrow> py_error + 'v norm_row list option" where
  "load_data countries fs =
     (case read_csv fs csv_path of
        Inl e \<Rightarrow> (if e = FileNotFoundError then Inr None else Inl e)
      | Inr df \<Rightarrow>
          (case normalize countries df of
             Inl e \<Rightarrow> Inl e
           | Inr t \<Rightarrow> Inr (Some t)))"

text \<open>
  \<^verbatim>\<open>@st.cache_data\<close>. \<^verbatim>\<open>load_data\<close> takes no argument, so its cache has one entry:
  \<open>None\<close> while no call has returned, \<open>Some r\<close> once a call has returned \<open>r\<close> (the
  value \<^verbatim>\<open>None\<close> of the function is cached like any other). A call that finds an entry
  returns it (a copy with the same content) and does not run the function; a call that finds none runs the function and
  stores what it returns; an exception of the function leaves the cache as it was.
  Nothing in the script clears the cache.
\<close>

definition st_cache_data :: "py_error + 'r \<Rightarrow> 'r option \<Rightarrow> (py_error + 'r) \<times> 'r option" where
  "st_cache_data body cache =
     (case cache of
        Some r \<Rightarrow> (Inr r, Some r)
      | None \<Rightarrow> (case body of Inl e \<Rightarrow> (Inl e, None) | Inr r \<Rightarrow> (Inr r, Some r)))"

definition cached_load_data ::
  "(string \<Rightarrow> country option) \<Rightarrow> 'v filesystem \<Rightarrow> 'v norm_row list option option \<Rightarrow>
     (py_error + 'v norm_row list option) \<times> 'v norm_row list option option" where
  "cached_load_data countries fs cache = st_cache_data (load_data countries fs) cache"

text \<open>
  The loader read row by row, for a source whose code cells are all strings; the
  column-wise \<open>normalize\<close> is shown equal to it below. (On a source with a missing code
  cell \<open>normalize\<close> raises, and \<open>row_of\<close> is not used.)
\<close>

definition row_of :: "(string \<Rightarrow> country option) \<Rightarrow> 'v src_row \<Rightarrow> 'v norm_row" where
  "row_of countries r =
     \<lparr>question = (case dict question_mapping (question r) of Some l \<Rightarrow> l | None \<Rightarrow> question r),
      code = code r, acceptance = acceptance r,
      country_name =
        (case code r of
           Str s \<Rightarrow> (case countries s of Some k \<Rightarrow> Str (name k) | None \<Rightarrow> Str s)
         | NaN \<Rightarrow> NaN),
      iso_alpha = (case code r of Str s \<Rightarrow> dict code_mapping s | NaN \<Rightarrow> None)\<rparr>"

subsection \<open>The selection layer\<close>

text \<open>\<^verbatim>\<open>question_options = df['question'].unique()\<close>, the options of the radio control.\<close>

definition question_options :: "'v norm_row list \<Rightarrow> string list" where
  "question_options df = unique (map question df)"

text \<open>\<^verbatim>\<open>df['question'] == selected_question\<close> is a boolean column, and \<^verbatim>\<open>df[mask]\<close>
  keeps the rows whose mask cell is true.\<close>

definition series_eq :: "'a list \<Rightarrow> 'a \<Rightarrow> bool list" where
  "series_eq col v = map (\<lambda>x. x = v) col"

definition getitem_mask :: "'r list \<Rightarrow> bool list \<Rightarrow> 'r list" where
  "getitem_mask df msk = map fst (filter snd (zip df msk))"

definition df_filtered :: "'v norm_row list \<Rightarrow> string \<Rightarrow> 'v norm_row list" where
  "df_filtered df selected_question = getitem_mask df (series_eq (map question df) selected_question)"

text \<open>
  The display table. \<^verbatim>\<open>df_filtered[['country_name', 'acceptance']]\<close> keeps two columns,
  \<^verbatim>\<open>rename\<close> relabels them \<^verbatim>\<open>Country\<close> and \<^verbatim>\<open>Acceptance (%)\<close>, and
  \<^verbatim>\<open>sort_values(..., ascending=False)\<close> orders the rows by the second one, largest first.
  pandas sorts with \<^verbatim>\<open>kind='quicksort'\<close> by default, which fixes no order among rows of
  equal acceptance; \<open>sort_values_desc\<close> keeps them in index order, and the theorems
  below do not depend on that choice.
\<close>

record 'a display_row =
  Country :: cell
  Acceptance :: 'a

definition getitem_columns :: "'v norm_row list \<Rightarrow> (cell \<times> 'v) list" where
  "getitem_columns df = map (\<lambda>r. (country_name r, acceptance r)) df"

definition rename_columns :: "(cell \<times> 'v) list \<Rightarrow> 'v display_row list" where
  "rename_columns df = map (\<lambda>(c, a). \<lparr>Country = c, Acceptance = a\<rparr>) df"

definition sort_values_desc :: "('v::linorder) display_row list \<Rightarrow> 'v display_row list" where
  "sort_values_desc df = rev (sort_key Acceptance (rev df))"

text \<open>
  \<^verbatim>\<open>df_display['Acceptance (%)'] = df_display['Acceptance (%)'].astype(str) + '%'\<close>.
  How pandas prints a number (\<^verbatim>\<open>astype(str)\<close>) is the parameter \<open>astype_str\<close>.
\<close>

definition series_astype_str :: "('v \<Rightarrow> string) \<Rightarrow> 'v list \<Rightarrow> string list" where
  "series_astype_str astype_str col = map astype_str col"

definition series_add :: "string list \<Rightarrow> string \<Rightarrow> string list" where
  "series_add col sfx = map (\<lambda>s. s @ sfx) col"

definition setitem_Acceptance :: "'v display_row list \<Rightarrow> string list \<Rightarrow> string display_row list" where
  "setitem_Acceptance df col = map2 (\<lambda>r s. \<lparr>Country = Country r, Acceptance = s\<rparr>) df col"

definition add_percent :: "('v \<Rightarrow> string) \<Rightarrow> 'v display_row list \<Rightarrow> string display_row list" where
  "add_percent astype_str df =
     setitem_Acceptance df (series_add (series_astype_str astype_str (map Acceptance df)) ''%'')"

definition df_display ::
  "(('v::linorder) \<Rightarrow> string) \<Rightarrow> 'v norm_row list \<Rightarrow> string display_row list" where
  "df_display astype_str flt =
     add_percent astype_str (sort_values_desc (rename_columns (getitem_columns flt)))"

subsection \<open>The script on a store of frames\<close>

text \<open>
  To say which frame an assignment writes to, the frames live in a store: a list of
  objects, an address being an index into it. Every pandas call of the selection layer
  (boolean indexing, column selection, \<^verbatim>\<open>rename\<close>, \<^verbatim>\<open>sort_values\<close>) returns a new
  object; the column assignment on \<^verbatim>\<open>df_display\<close> writes into the object the name is
  bound to. \<open>None\<close> is a run that reads an address holding no frame of the expected shape.
\<close>

datatype 'v frame =
    Norm "'v norm_row list"
  | Cols "(cell \<times> 'v) list"
  | Disp_num "'v display_row list"
  | Disp_str "string display_row list"

type_synonym 'v store = "'v frame list"

definition deref :: "'v store \<Rightarrow> nat \<Rightarrow> 'v frame option" where
  "deref h a = (if a < length h then Some (h ! a) else None)"

definition alloc :: "'v store \<Rightarrow> 'v frame \<Rightarrow> 'v store \<times> nat" where
  "alloc h f = (h @ [f], length h)"

definition store_filter :: "'v store \<Rightarrow> nat \<Rightarrow> string \<Rightarrow> ('v store \<times> nat) option" where
  "store_filter h a sel =
     (case deref h a of Some (Norm t) \<Rightarrow> Some (alloc h (Norm (df_filtered t sel))) | _ \<Rightarrow> None)"

definition store_getitem_columns :: "'v store \<Rightarrow> nat \<Rightarrow> ('v store \<times> nat) option" where
  "store_getitem_columns h a =
     (case deref h a of Some (Norm t) \<Rightarrow> Some (alloc h (Cols (getitem_columns t))) | _ \<Rightarrow> None)"

definition store_rename :: "'v store \<Rightarrow> nat \<Rightarrow> ('v store \<times> nat) option" where
  "store_rename h a =
     (case deref h a of Some (Cols t) \<Rightarrow> Some (alloc h (Disp_num (rename_columns t))) | _ \<Rightarrow> None)"

definition store_sort_values :: "('v::linorder) store \<Rightarrow> nat \<Rightarrow> ('v store \<times> nat) option" where
  "store_sort_values h a =
     (case deref h a of Some (Disp_num t) \<Rightarrow> Some (alloc h (Disp_num (sort_values_desc t)))
      | _ \<Rightarrow> None)"

definition store_add_percent :: "('v \<Rightarrow> string) \<Rightarrow> 'v store \<Rightarrow> nat \<Rightarrow> 'v store option" where
  "store_add_percent astype_str h a =
     (case deref h a of Some (Disp_num t) \<Rightarrow> Some (h[a := Disp_str (add_percent astype_str t)])
      | _ \<Rightarrow> None)"

text \<open>One run of the \<^verbatim>\<open>else\<close> branch of the script with the radio control at \<open>sel\<close>;
  \<open>df\<close> is the address of the loaded table.\<close>

definition select_question ::
  "(('v::linorder) \<Rightarrow> string) \<Rightarrow> nat \<Rightarrow> string \<Rightarrow> 'v store \<Rightarrow> 'v store option" where
  "select_question astype_str df sel h =
     do {
       (h1, filtered) \<leftarrow> store_filter h df sel;
       (h2, a2) \<leftarrow> store_getitem_columns h1 filtered;
       (h3, a3) \<leftarrow> store_rename h2 a2;
       (h4, display) \<leftarrow> store_sort_values h3 a3;
       store_add_percent astype_str h4 display
     }"

fun selections ::
  "(('v::linorder) \<Rightarrow> string) \<Rightarrow> nat \<Rightarrow> string list \<Rightarrow> 'v store \<Rightarrow> 'v store option" where
  "selections astype_str df [] h = Some h"
| "selections astype_str df (sel # sels) h =
     (case select_question astype_str df sel h of
        None \<Rightarrow> None
      | Some h' \<Rightarrow> selections astype_str df sels h')"

subsection \<open>A small source file\<close>

text \<open>
  A three-row source used to run the definitions: two rows of the first question, for
  Germany and Belgium, and one row whose question identifier and country code are in
  neither table; and a two-country excerpt of the pycountry database.
\<close>

definition demo_countries :: "string \<Rightarrow> country option" where
  "demo_countries c =
     (if c = ''BE'' then Some \<lparr>alpha_2 = ''BE'', name = ''Belgium''\<rparr>
      else if c = ''DE'' then Some \<lparr>alpha_2 = ''DE'', name = ''Germany''\<rparr>
      else None)"

definition demo_rows :: "real src_row list" where
  "demo_rows =
     [\<lparr>question = ''Question from sheet 'QB15_1'' @ [CHR 0x27], code = Str ''DE'', acceptance = 84.5\<rparr>,
      \<lparr>question = ''Question from sheet 'QB15_1'' @ [CHR 0x27], code = Str ''BE'', acceptance = 91.0\<rparr>,
      \<lparr>question = ''Question from sheet 'QB15_5'' @ [CHR 0x27], code = Str ''XK'', acceptance = 50.0\<rparr>]"

definition demo_fs :: "real filesystem" where
  "demo_fs = [csv_path \<mapsto> Rows demo_rows]"

text \<open>A source whose only row has a question identifier outside the mapping, the first two
  rows of \<open>demo_rows\<close> alone, and a file the reader fails on.\<close>

definition demo_unknown :: "real filesystem" where
  "demo_unknown = [csv_path \<mapsto> Rows [\<lparr>question = ''Q5'', code = Str ''BE'', acceptance = 91.0\<rparr>]]"

definition demo_fixed :: "real filesystem" where
  "demo_fixed = [csv_path \<mapsto> Rows (take 2 demo_rows)]"

definition demo_unreadable :: "real filesystem" where
  "demo_unreadable = [csv_path \<mapsto> Unreadable ''ParserError'']"

text \<open>A source with a row for Namibia: \<^verbatim>\<open>pd.read_csv\<close> reads its code \<^verbatim>\<open>NA\<close> as a
  missing cell.\<close>

definition demo_missing_code :: "real filesystem" where
  "demo_missing_code =
     [csv_path \<mapsto> Rows
        [\<lparr>question = ''Question from sheet 'QB15_1'' @ [CHR 0x27], code = Str ''BE'', acceptance = 91.0\<rparr>,
         \<lparr>question = ''Question from sheet 'QB15_1'' @ [CHR 0x27], code = NaN, acceptance = 50.0\<rparr>]]"

text \<open>
  The table \<^verbatim>\<open>load_data\<close> returns on \<open>demo_fs\<close>, a store holding it at address 0,
  and what \<^verbatim>\<open>astype(str)\<close> prints for the three acceptance values of the source.
\<close>

definition demo_astype_str :: "real \<Rightarrow> string" where
  "demo_astype_str x =
     (if x = 91.0 then ''91.0'' else if x = 84.5 then ''84.5'' else if x = 50.0 then ''50.0'' else [])"

definition demo_table :: "real norm_row list" where
  "demo_table =
     [\<lparr>question = ''Equal rights for gay, lesbian, and bisexual people'', code = Str ''DE'',
       acceptance = 84.5, country_name = Str ''Germany'', iso_alpha = Some ''DEU''\<rparr>,
      \<lparr>question = ''Equal rights for gay, lesbian, and bisexual people'', code = Str ''BE'',
       acceptance = 91.0, country_name = Str ''Belgium'', iso_alpha = Some ''BEL''\<rparr>,
      \<lparr>question = ''Question from sheet 'QB15_5'' @ [CHR 0x27], code = Str ''XK'',
       acceptance = 50.0, country_name = Str ''XK'', iso_alpha = None\<rparr>]"

definition demo_store :: "real store" where
  "demo_store = [Norm demo_table]"

section \<open>Properties\<close>

subsection \<open>The loader row by row\<close>

lemma map2_map: "map2 f (map g xs) (map h xs) = map (\<lambda>x. f (g x) (h x)) xs"
  by (induction xs) simp_all

lemma map2_same: "map2 f xs (map g xs) = map (\<lambda>x. f x (g x)) xs"
  by (induction xs) simp_all

lemma get_country_name_Str:
  "get_country_name cg (Str s) = Inr (case cg s of Some k \<Rightarrow> Str (name k) | None \<Rightarrow> Str s)"
  by (simp add: get_country_name_def countries_get_def getattr_name_def split: option.split)

lemma get_country_name_NaN: "get_country_name cg NaN = Inl LookupError"
  by (simp add: get_country_name_def countries_get_def)

lemma series_apply_Inr:
  "(\<And>x. x \<in> set xs \<Longrightarrow> f x = Inr (g x)) \<Longrightarrow> series_apply f xs = Inr (map g xs)"
  by (induction xs) simp_all

lemma series_apply_NaN:
  "NaN \<in> set xs \<Longrightarrow> series_apply (get_country_name cg) xs = Inl LookupError"
proof (induction xs)
  case Nil
  then show ?case by simp
next
  case (Cons x xs)
  show ?case
  proof (cases x)
    case NaN
    then show ?thesis by (simp add: get_country_name_NaN)
  next
    case (Str s)
    with Cons.prems have "NaN \<in> set xs" by simp
    then have "series_apply (get_country_name cg) xs = Inl LookupError" by (rule Cons.IH)
    then show ?thesis using Str by (simp add: get_country_name_Str)
  qed
qed

lemma setitem_question_eq:
  "setitem_question df (series_replace (dict question_mapping) (map question df))
     = map (\<lambda>r. r\<lparr>question := (case dict question_mapping (question r) of
                                     Some l \<Rightarrow> l | None \<Rightarrow> question r)\<rparr>) df"
  by (simp add: setitem_question_def series_replace_def map2_same o_def)

lemma code_setitem_question:
  "map code (setitem_question df (series_replace (dict question_mapping) (map question df)))
     = map code df"
  by (simp add: setitem_question_eq o_def)

lemma normalize_eq:
  assumes "NaN \<notin> code ` set df"
  shows "normalize cg df = Inr (map (row_of cg) df)"
proof -
  let ?lab = "\<lambda>r::'a src_row. case dict question_mapping (question r) of Some l \<Rightarrow> l | None \<Rightarrow> question r"
  let ?nm = "\<lambda>c. case c of Str s \<Rightarrow> (case cg s of Some k \<Rightarrow> Str (name k) | None \<Rightarrow> Str s) | NaN \<Rightarrow> NaN"
  let ?df1 = "setitem_question df (series_replace (dict question_mapping) (map question df))"
  have d1: "?df1 = map (\<lambda>r. r\<lparr>question := ?lab r\<rparr>) df"
    by (rule setitem_question_eq)
  have c1: "map code ?df1 = map code df"
    by (rule code_setitem_question)
  have nm: "get_country_name cg c = Inr (?nm c)" if "c \<in> set (map code df)" for c
  proof (cases c)
    case (Str s)
    then show ?thesis by (simp add: get_country_name_Str)
  next
    case NaN
    with that assms show ?thesis by simp
  qed
  have ap: "series_apply (get_country_name cg) (map code ?df1) = Inr (map ?nm (map code df))"
    unfolding c1 by (rule series_apply_Inr) (rule nm)
  let ?df2 = "setitem_country_name ?df1 (map ?nm (map code df))"
  have d2: "?df2 = map (\<lambda>r. \<lparr>question = ?lab r, code = code r, acceptance = acceptance r,
                              country_name = ?nm (code r)\<rparr>) df"
    unfolding d1 setitem_country_name_def by (simp add: map2_map o_def)
  have d3: "setitem_iso_alpha ?df2 (series_map (dict code_mapping) (map code ?df2))
              = map (row_of cg) df"
    unfolding d2 setitem_iso_alpha_def series_map_def
    by (simp add: map2_map o_def row_of_def)
  show ?thesis
    by (simp only: normalize_def Let_def ap d3 sum.case)
qed

lemma normalize_NaN:
  assumes "NaN \<in> code ` set df"
  shows "normalize cg df = Inl LookupError"
proof -
  have "NaN \<in> set (map code df)" using assms by simp
  then have "series_apply (get_country_name cg)
               (map code (setitem_question df
                  (series_replace (dict question_mapping) (map question df)))) = Inl LookupError"
    unfolding code_setitem_question by (rule series_apply_NaN)
  then show ?thesis
    by (simp only: normalize_def Let_def sum.case)
qed

lemma load_data_Rows:
  "fs csv_path = Some (Rows df) \<Longrightarrow> NaN \<notin> code ` set df \<Longrightarrow>
     load_data cg fs = Inr (Some (map (row_of cg) df))"
  by (simp add: load_data_def read_csv_def normalize_eq)

lemma load_data_Rows_NaN:
  "fs csv_path = Some (Rows df) \<Longrightarrow> NaN \<in> code ` set df \<Longrightarrow> load_data cg fs = Inl LookupError"
  by (simp add: load_data_def read_csv_def normalize_NaN)

lemma load_data_Unreadable:
  "fs csv_path = Some (Unreadable tag) \<Longrightarrow> load_data cg fs = Inl (OtherError tag)"
  by (simp add: load_data_def read_csv_def)

lemma load_data_absent: "fs csv_path = None \<Longrightarrow> load_data cg fs = Inr None"
  by (simp add: load_data_def read_csv_def)

text \<open>A call that finds the cache empty returns what the function returns or raises.\<close>

lemma cached_load_data_miss: "fst (cached_load_data cg fs None) = load_data cg fs"
  by (cases "load_data cg fs") (simp_all add: cached_load_data_def st_cache_data_def)

text \<open>\<^verbatim>\<open>load_data\<close> returns a table exactly on a parsed file without a missing code cell.\<close>

lemma load_data_table_iff:
  "(\<exists>t. load_data cg fs = Inr (Some t))
     \<longleftrightarrow> (\<exists>df. fs csv_path = Some (Rows df) \<and> NaN \<notin> code ` set df)"
proof (cases "fs csv_path")
  case None
  then show ?thesis using load_data_absent [of fs cg] by simp
next
  case (Some f)
  show ?thesis
  proof (cases f)
    case (Unreadable tag)
    then show ?thesis using Some load_data_Unreadable [of fs tag cg] by simp
  next
    case (Rows df)
    show ?thesis
    proof (cases "NaN \<in> code ` set df")
      case True
      then show ?thesis using Some Rows load_data_Rows_NaN [of fs df cg] by simp
    next
      case False
      then show ?thesis using Some Rows load_data_Rows [of fs df cg] by simp
    qed
  qed
qed

lemma dict_SomeD: "dict kvs k = Some v \<Longrightarrow> (k, v) \<in> set kvs"
  unfolding dict_def by (drule map_of_SomeD) simp

lemma dict_None_iff: "dict kvs k = None \<longleftrightarrow> k \<notin> fst ` set kvs"
  by (simp add: dict_def map_of_eq_None_iff)

lemma dict_SomeI: "distinct (map fst kvs) \<Longrightarrow> (k, v) \<in> set kvs \<Longrightarrow> dict kvs k = Some v"
  unfolding dict_def by (rule map_of_is_SomeI) (simp_all add: rev_map [symmetric])

lemma set_unique: "set (unique xs) = set xs"
  by (induction xs) auto

lemma distinct_unique: "distinct (unique xs)"
  by (induction xs) (auto simp: set_unique)

lemma question_row_of:
  "question (row_of cg r) = (case dict question_mapping (question r) of Some l \<Rightarrow> l | None \<Rightarrow> question r)"
  by (simp add: row_of_def)

lemma row_of_sel:
  "code (row_of cg r) = code r" "acceptance (row_of cg r) = acceptance r"
  "country_name (row_of cg r)
     = (case code r of Str s \<Rightarrow> (case cg s of Some k \<Rightarrow> Str (name k) | None \<Rightarrow> Str s) | NaN \<Rightarrow> NaN)"
  "iso_alpha (row_of cg r) = (case code r of Str s \<Rightarrow> dict code_mapping s | NaN \<Rightarrow> None)"
  by (simp_all add: row_of_def)

lemma question_mapping_distinct:
  "distinct (map fst question_mapping)" "distinct (map snd question_mapping)"
  by (simp_all add: question_mapping_def)

lemma code_mapping_distinct: "distinct (map fst code_mapping)"
  by (simp add: code_mapping_def)

lemma question_mapping_labels_not_keys:
  "snd ` set question_mapping \<inter> fst ` set question_mapping = {}"
  by (simp add: question_mapping_def)

lemma demo_rows_codes: "NaN \<notin> code ` set demo_rows"
  by (simp add: demo_rows_def)

subsection \<open>Question labels\<close>

text \<open>
  C8. On a source without a missing code cell (so that a table is returned), a source
  row whose question identifier is one of the four keys of
  \<open>question_mapping\<close> gets, in the table \<^verbatim>\<open>load_data\<close> returns, the label the
  mapping pairs with that identifier, and no other label is paired with it. The mapping has
  four entries, with pairwise different identifiers and pairwise different labels; its
  first entry sends the sheet-1 identifier to
  \<^verbatim>\<open>Equal rights for gay, lesbian, and bisexual people\<close>.
\<close>

theorem question_label_of_fixed_identifier:
  assumes "fs csv_path = Some (Rows src)" and "i < length src"
    and "question (src ! i) \<in> fst ` set question_mapping"
    and "NaN \<notin> code ` set src"
  shows "\<exists>t. load_data cg fs = Inr (Some t) \<and> length t = length src \<and>
           (question (src ! i), question (t ! i)) \<in> set question_mapping \<and>
           (\<forall>l. (question (src ! i), l) \<in> set question_mapping \<longrightarrow> l = question (t ! i)) \<and>
           length question_mapping = 4 \<and>
           distinct (map fst question_mapping) \<and> distinct (map snd question_mapping) \<and>
           dict question_mapping (''Question from sheet 'QB15_1'' @ [CHR 0x27])
             = Some ''Equal rights for gay, lesbian, and bisexual people''"
proof -
  let ?t = "map (row_of cg) src"
  let ?k = "question (src ! i)"
  from assms(3) obtain l where l: "dict question_mapping ?k = Some l"
    using dict_None_iff [of question_mapping ?k] by fastforce
  have q: "question (?t ! i) = l"
    using assms(2) l by (simp add: question_row_of)
  have mem: "(?k, question (?t ! i)) \<in> set question_mapping"
    using l q dict_SomeD by fastforce
  have uniq: "\<forall>l'. (?k, l') \<in> set question_mapping \<longrightarrow> l' = question (?t ! i)"
    using dict_SomeI [OF question_mapping_distinct(1)] l q by fastforce
  have ex: "dict question_mapping (''Question from sheet 'QB15_1'' @ [CHR 0x27])
             = Some ''Equal rights for gay, lesbian, and bisexual people''"
    by (simp add: dict_def question_mapping_def)
  have ld: "load_data cg fs = Inr (Some ?t)"
    using assms(1,4) by (rule load_data_Rows)
  have len: "length ?t = length src" by simp
  have four: "length question_mapping = 4" by (simp add: question_mapping_def)
  note d = question_mapping_distinct
  show ?thesis
    by (intro exI [of _ ?t] conjI) (fact ld len mem uniq four d ex)+
qed

theorem question_label_of_fixed_identifier_witness:
  "demo_fs csv_path = Some (Rows demo_rows) \<and> (1::nat) < length demo_rows \<and>
   question (demo_rows ! 1) \<in> fst ` set question_mapping \<and>
   (\<exists>t. load_data demo_countries demo_fs = Inr (Some t) \<and>
        (question (demo_rows ! 1), question (t ! 1)) \<in> set question_mapping)"
proof -
  have a: "demo_fs csv_path = Some (Rows demo_rows)" by (simp add: demo_fs_def)
  have b: "(1::nat) < length demo_rows" by (simp add: demo_rows_def)
  have c: "question (demo_rows ! 1) \<in> fst ` set question_mapping"
    by (simp add: demo_rows_def question_mapping_def)
  show ?thesis
    using question_label_of_fixed_identifier
            [where fs = demo_fs and src = demo_rows and i = 1 and cg = demo_countries,
             OF a b c demo_rows_codes] a b c
    by (elim exE conjE) (intro conjI exI, assumption+)
qed

text \<open>
  C10. A source row whose question identifier is not a key of \<open>question_mapping\<close>
  keeps the identifier as its label: on a source without a missing code cell
  \<^verbatim>\<open>load_data\<close> returns a table (the relabelling does not raise), the row's \<^verbatim>\<open>question\<close> cell is the source identifier unchanged, and the
  identifier is among the options of the question selector.
\<close>

theorem unknown_identifier_passes_through:
  assumes "fs csv_path = Some (Rows src)" and "i < length src"
    and "question (src ! i) \<notin> fst ` set question_mapping"
    and "NaN \<notin> code ` set src"
  shows "\<exists>t. load_data cg fs = Inr (Some t) \<and> length t = length src \<and>
           question (t ! i) = question (src ! i) \<and>
           question (src ! i) \<in> set (question_options t)"
proof -
  let ?t = "map (row_of cg) src"
  have n: "dict question_mapping (question (src ! i)) = None"
    using assms(3) by (simp add: dict_None_iff)
  have q: "question (?t ! i) = question (src ! i)"
    using assms(2) n by (simp add: question_row_of)
  have "question (?t ! i) \<in> set (map question ?t)"
    using assms(2) by (metis length_map nth_map nth_mem)
  then have "question (src ! i) \<in> set (question_options ?t)"
    unfolding question_options_def set_unique q .
  then have opt: "question (src ! i) \<in> set (question_options ?t)" .
  have ld: "load_data cg fs = Inr (Some ?t)"
    using assms(1,4) by (rule load_data_Rows)
  have len: "length ?t = length src" by simp
  show ?thesis
    by (intro exI [of _ ?t] conjI) (fact ld len q opt)+
qed


theorem unknown_identifier_passes_through_witness:
  "demo_fs csv_path = Some (Rows demo_rows) \<and> (2::nat) < length demo_rows \<and>
   question (demo_rows ! 2) \<notin> fst ` set question_mapping \<and>
   (\<exists>t. load_data demo_countries demo_fs = Inr (Some t) \<and>
        question (t ! 2) = question (demo_rows ! 2) \<and>
        question (demo_rows ! 2) \<in> set (question_options t))"
proof -
  have a: "demo_fs csv_path = Some (Rows demo_rows)" by (simp add: demo_fs_def)
  have b: "(2::nat) < length demo_rows" by (simp add: demo_rows_def)
  have c: "question (demo_rows ! 2) \<notin> fst ` set question_mapping"
    by (simp add: demo_rows_def question_mapping_def)
  show ?thesis
    using unknown_identifier_passes_through
            [where fs = demo_fs and src = demo_rows and i = 2 and cg = demo_countries,
             OF a b c demo_rows_codes] a b c
    by (elim exE conjE) (intro conjI exI, assumption+)
qed

subsection \<open>The set of labels\<close>

text \<open>
  C1, as stated, fails. On a source whose one row has the question identifier
  \<^verbatim>\<open>Q5\<close>, \<^verbatim>\<open>load_data\<close> returns a table whose \<^verbatim>\<open>question\<close> cell is
  \<^verbatim>\<open>Q5\<close>, which is none of the four labels.
\<close>

theorem labels_outside_fixed_set_counterexample:
  "load_data demo_countries demo_unknown
     = Inr (Some [\<lparr>question = ''Q5'', code = Str ''BE'', acceptance = 91.0,
                    country_name = Str ''Belgium'', iso_alpha = Some ''BEL''\<rparr>]) \<and>
   ''Q5'' \<notin> snd ` set question_mapping"
proof -
  have "demo_unknown csv_path = Some (Rows [\<lparr>question = ''Q5'', code = Str ''BE'', acceptance = 91.0\<rparr>])"
    by (simp add: demo_unknown_def)
  then have "load_data demo_countries demo_unknown
      = Inr (Some (map (row_of demo_countries) [\<lparr>question = ''Q5'', code = Str ''BE'', acceptance = 91.0\<rparr>]))"
    by (rule load_data_Rows) simp
  moreover have "dict question_mapping ''Q5'' = None"
    by (simp add: dict_def question_mapping_def)
  moreover have "dict code_mapping ''BE'' = Some ''BEL''"
    by (simp add: dict_def code_mapping_def)
  moreover have "''Q5'' \<notin> snd ` set question_mapping"
    by (simp add: question_mapping_def)
  ultimately show ?thesis
    by (simp add: row_of_def demo_countries_def)
qed

text \<open>
  C1, amended. When every question identifier of the source is one of the four keys of
  \<open>question_mapping\<close> (and no code cell is missing, so that a table is returned), the \<^verbatim>\<open>question\<close> cells of the table \<^verbatim>\<open>load_data\<close>
  returns are all among the four labels of the mapping, so that they form a set of at most
  four values.
\<close>

theorem labels_within_fixed_set:
  assumes "fs csv_path = Some (Rows src)"
    and "\<forall>r \<in> set src. question r \<in> fst ` set question_mapping"
    and "NaN \<notin> code ` set src"
  shows "\<exists>t. load_data cg fs = Inr (Some t) \<and>
           set (map question t) \<subseteq> snd ` set question_mapping \<and>
           card (set (map question t)) \<le> 4"
proof -
  let ?t = "map (row_of cg) src"
  have sub: "set (map question ?t) \<subseteq> snd ` set question_mapping"
  proof
    fix l assume "l \<in> set (map question ?t)"
    then obtain r where r: "r \<in> set src" and l: "l = question (row_of cg r)" by auto
    from r assms(2) obtain v where v: "dict question_mapping (question r) = Some v"
      using dict_None_iff [of question_mapping "question r"] by fastforce
    then have "(question r, l) \<in> set question_mapping"
      using l dict_SomeD [OF v] by (simp add: question_row_of)
    then show "l \<in> snd ` set question_mapping" by force
  qed
  have "card (snd ` set question_mapping) \<le> length question_mapping"
    by (metis card_image_le card_length le_trans List.finite_set)
  also have "\<dots> = 4" by (simp add: question_mapping_def)
  finally have four: "card (snd ` set question_mapping) \<le> 4" .
  have card: "card (set (map question ?t)) \<le> 4"
    using card_mono [OF _ sub] four by simp
  have ld: "load_data cg fs = Inr (Some ?t)"
    using assms(1,3) by (rule load_data_Rows)
  show ?thesis
    by (intro exI [of _ ?t] conjI) (fact ld sub card)+
qed

theorem labels_within_fixed_set_witness:
  "demo_fixed csv_path = Some (Rows (take 2 demo_rows)) \<and>
   set (map question (take 2 demo_rows)) \<subseteq> fst ` set question_mapping \<and>
   (\<exists>t. load_data demo_countries demo_fixed = Inr (Some t) \<and>
        set (map question t) \<subseteq> snd ` set question_mapping \<and>
        card (set (map question t)) \<le> 4)"
proof -
  have a: "demo_fixed csv_path = Some (Rows (take 2 demo_rows))" by (simp add: demo_fixed_def)
  have b: "\<forall>r \<in> set (take 2 demo_rows). question r \<in> fst ` set question_mapping"
    by (simp add: demo_rows_def question_mapping_def)
  have c: "set (map question (take 2 demo_rows)) \<subseteq> fst ` set question_mapping"
    by (simp add: demo_rows_def question_mapping_def)
  have d: "NaN \<notin> code ` set (take 2 demo_rows)"
    by (simp add: demo_rows_def)
  show ?thesis
    using labels_within_fixed_set
            [where fs = demo_fixed and src = "take 2 demo_rows" and cg = demo_countries, OF a b d] a c
    by (intro conjI) assumption+
qed

subsection \<open>Geocoding\<close>

text \<open>
  C2. On a source without a missing code cell \<^verbatim>\<open>load_data\<close> returns a table with one
  row for each source row, in order, and row \<open>i\<close> has the code of source row \<open>i\<close>; if
  that code is a key of \<open>code_mapping\<close> the row's \<^verbatim>\<open>iso_alpha\<close> is the table's value
  for it, and if it is no key the row's \<^verbatim>\<open>iso_alpha\<close> is missing. Two rows of the table
  with the same \<^verbatim>\<open>code\<close> have the same \<^verbatim>\<open>iso_alpha\<close>. The table has 27 entries, with
  pairwise different keys.
\<close>

theorem geo_code_from_table:
  assumes "fs csv_path = Some (Rows src)" and "NaN \<notin> code ` set src"
  shows "\<exists>t. load_data cg fs = Inr (Some t) \<and> length t = length src \<and>
           (\<forall>i < length src. code (t ! i) = code (src ! i) \<and>
              (\<forall>s g. code (src ! i) = Str s \<and> (s, g) \<in> set code_mapping
                      \<longrightarrow> iso_alpha (t ! i) = Some g) \<and>
              (\<forall>s. code (src ! i) = Str s \<and> s \<notin> fst ` set code_mapping
                    \<longrightarrow> iso_alpha (t ! i) = None)) \<and>
           (\<forall>r \<in> set t. \<forall>r' \<in> set t. code r = code r' \<longrightarrow> iso_alpha r = iso_alpha r') \<and>
           length code_mapping = 27 \<and> distinct (map fst code_mapping)"
proof -
  let ?t = "map (row_of cg) src"
  have iso: "iso_alpha r = (case code r of Str s \<Rightarrow> dict code_mapping s | NaN \<Rightarrow> None)"
    if "r \<in> set ?t" for r
    using that by (auto simp: row_of_sel)
  have rows: "\<forall>i < length src. code (?t ! i) = code (src ! i) \<and>
              (\<forall>s g. code (src ! i) = Str s \<and> (s, g) \<in> set code_mapping
                      \<longrightarrow> iso_alpha (?t ! i) = Some g) \<and>
              (\<forall>s. code (src ! i) = Str s \<and> s \<notin> fst ` set code_mapping
                    \<longrightarrow> iso_alpha (?t ! i) = None)"
  proof (intro allI impI conjI)
    fix i assume "i < length src"
    then show "code (?t ! i) = code (src ! i)" by (simp add: row_of_sel)
  next
    fix i s g assume "i < length src" and "code (src ! i) = Str s \<and> (s, g) \<in> set code_mapping"
    then show "iso_alpha (?t ! i) = Some g"
      using dict_SomeI [OF code_mapping_distinct, of s g] by (simp add: row_of_sel)
  next
    fix i s assume "i < length src" and "code (src ! i) = Str s \<and> s \<notin> fst ` set code_mapping"
    then show "iso_alpha (?t ! i) = None"
      using dict_None_iff [of code_mapping s] by (simp add: row_of_sel)
  qed
  have det: "\<forall>r \<in> set ?t. \<forall>r' \<in> set ?t. code r = code r' \<longrightarrow> iso_alpha r = iso_alpha r'"
    using iso by simp
  have len: "length ?t = length src" by simp
  have n: "length code_mapping = 27" by (simp add: code_mapping_def)
  have ld: "load_data cg fs = Inr (Some ?t)"
    using assms by (rule load_data_Rows)
  show ?thesis
    by (intro exI [of _ ?t] conjI) (fact ld len rows det n code_mapping_distinct)+
qed

theorem geo_code_from_table_witness:
  "demo_fs csv_path = Some (Rows demo_rows) \<and> NaN \<notin> code ` set demo_rows \<and>
   (\<exists>t. load_data demo_countries demo_fs = Inr (Some t) \<and> length t = 3 \<and>
        code (t ! 0) = Str ''DE'' \<and> iso_alpha (t ! 0) = Some ''DEU'' \<and>
        code (t ! 2) = Str ''XK'' \<and> iso_alpha (t ! 2) = None)"
proof -
  have a: "demo_fs csv_path = Some (Rows demo_rows)" by (simp add: demo_fs_def)
  have l: "length demo_rows = 3" by (simp add: demo_rows_def)
  have c0: "code (demo_rows ! 0) = Str ''DE''" by (simp add: demo_rows_def)
  have c2: "code (demo_rows ! 2) = Str ''XK''" by (simp add: demo_rows_def)
  have m0: "(''DE'', ''DEU'') \<in> set code_mapping" by (simp add: code_mapping_def)
  have m2: "''XK'' \<notin> fst ` set code_mapping" by (simp add: code_mapping_def)
  from geo_code_from_table
         [where fs = demo_fs and src = demo_rows and cg = demo_countries, OF a demo_rows_codes]
  obtain t where t: "load_data demo_countries demo_fs = Inr (Some t)"
    and len: "length t = length demo_rows"
    and rows: "\<forall>i < length demo_rows. code (t ! i) = code (demo_rows ! i) \<and>
              (\<forall>s g. code (demo_rows ! i) = Str s \<and> (s, g) \<in> set code_mapping
                      \<longrightarrow> iso_alpha (t ! i) = Some g) \<and>
              (\<forall>s. code (demo_rows ! i) = Str s \<and> s \<notin> fst ` set code_mapping
                    \<longrightarrow> iso_alpha (t ! i) = None)"
    by (elim exE conjE)
  have len': "length t = 3" using len l by simp
  have r0: "code (t ! 0) = Str ''DE''" "iso_alpha (t ! 0) = Some ''DEU''"
    using rows l c0 m0 by simp_all
  have r2: "code (t ! 2) = Str ''XK''" "iso_alpha (t ! 2) = None"
    using rows l c2 m2 by simp_all
  show ?thesis
    by (intro conjI exI [of _ t]) (fact a demo_rows_codes t len' r0 r2)+
qed

subsection \<open>The missing file and the cache\<close>

text \<open>
  C3, as stated, fails, because \<^verbatim>\<open>load_data\<close> is cached. A first call while the file
  is absent returns \<^verbatim>\<open>None\<close> and caches it; a second call, made when the file is
  there, returns the cached \<^verbatim>\<open>None\<close>.
\<close>

theorem cached_None_with_file_present_counterexample:
  "cached_load_data demo_countries (Map.empty :: real filesystem) None = (Inr None, Some None) \<and>
   demo_fs csv_path = Some (Rows demo_rows) \<and>
   cached_load_data demo_countries demo_fs (Some None) = (Inr None, Some None)"
  by (simp add: cached_load_data_def st_cache_data_def load_data_def read_csv_def demo_fs_def)

text \<open>
  C3, amended. A call of \<^verbatim>\<open>load_data()\<close> that finds the cache empty returns
  \<^verbatim>\<open>None\<close> exactly when there is no file at the path, and then raises nothing and
  caches the \<^verbatim>\<open>None\<close>. On a file the reader fails on, the reader's exception reaches
  the caller; an exception is never turned into \<^verbatim>\<open>None\<close> and leaves the cache empty, and
  it can only come from a file that is there. On a parsed file without a missing code cell
  the call returns a table and caches it. A call that finds a cached value returns that
  value, whatever the file system holds.
\<close>

theorem cached_load_data_NotFound_iff_absent:
  "(fst (cached_load_data cg fs None) = Inr None \<longleftrightarrow> fs csv_path = None) \<and>
   (fs csv_path = None \<longrightarrow> cached_load_data cg fs None = (Inr None, Some None)) \<and>
   (\<forall>tag. fs csv_path = Some (Unreadable tag) \<longrightarrow>
      cached_load_data cg fs None = (Inl (OtherError tag), None)) \<and>
   (\<forall>e. fst (cached_load_data cg fs None) = Inl e \<longrightarrow>
      fs csv_path \<noteq> None \<and> snd (cached_load_data cg fs None) = None) \<and>
   (\<forall>src. fs csv_path = Some (Rows src) \<and> NaN \<notin> code ` set src \<longrightarrow>
      (\<exists>t. cached_load_data cg fs None = (Inr (Some t), Some (Some t)))) \<and>
   (\<forall>r. cached_load_data cg fs (Some r) = (Inr r, Some r))"
proof -
  have hit: "\<forall>r. cached_load_data cg fs (Some r) = (Inr r, Some r)"
    by (simp add: cached_load_data_def st_cache_data_def)
  have miss: "cached_load_data cg fs None
                = (case load_data cg fs of Inl e \<Rightarrow> (Inl e, None) | Inr r \<Rightarrow> (Inr r, Some r))"
    by (simp add: cached_load_data_def st_cache_data_def)
  show ?thesis
  proof (cases "fs csv_path")
    case None
    then show ?thesis using hit miss load_data_absent [of fs cg] by simp
  next
    case (Some f)
    show ?thesis
    proof (cases f)
      case (Unreadable tag)
      then show ?thesis using hit miss Some load_data_Unreadable [of fs tag cg] by simp
    next
      case (Rows src)
      show ?thesis
      proof (cases "NaN \<in> code ` set src")
        case True
        then show ?thesis using hit miss Some Rows load_data_Rows_NaN [of fs src cg] by simp
      next
        case False
        then show ?thesis using hit miss Some Rows load_data_Rows [of fs src cg] by simp
      qed
    qed
  qed
qed

theorem cached_load_data_NotFound_iff_absent_witness:
  "cached_load_data demo_countries (Map.empty :: real filesystem) None = (Inr None, Some None) \<and>
   cached_load_data demo_countries demo_unreadable None = (Inl (OtherError ''ParserError''), None) \<and>
   (\<exists>t. cached_load_data demo_countries demo_fs None = (Inr (Some t), Some (Some t))) \<and>
   fst (cached_load_data demo_countries demo_fs None) \<noteq> Inr None \<and>
   cached_load_data demo_countries demo_unreadable (Some (Some demo_table))
     = (Inr (Some demo_table), Some (Some demo_table))"
proof -
  have a: "demo_fs csv_path = Some (Rows demo_rows)" by (simp add: demo_fs_def)
  have b: "demo_unreadable csv_path = Some (Unreadable ''ParserError'')"
    by (simp add: demo_unreadable_def)
  have c: "(Map.empty :: real filesystem) csv_path = None" by simp
  note e = cached_load_data_NotFound_iff_absent [of demo_countries "Map.empty :: real filesystem"]
  note u = cached_load_data_NotFound_iff_absent [of demo_countries demo_unreadable]
  note p = cached_load_data_NotFound_iff_absent [of demo_countries demo_fs]
  have 1: "cached_load_data demo_countries (Map.empty :: real filesystem) None = (Inr None, Some None)"
    using e c by blast
  have 2: "cached_load_data demo_countries demo_unreadable None
             = (Inl (OtherError ''ParserError''), None)"
    using u b by blast
  have 3: "\<exists>t. cached_load_data demo_countries demo_fs None = (Inr (Some t), Some (Some t))"
    using p a demo_rows_codes by blast
  have 4: "fst (cached_load_data demo_countries demo_fs None) \<noteq> Inr None"
    using p a by simp
  have 5: "cached_load_data demo_countries demo_unreadable (Some (Some demo_table))
             = (Inr (Some demo_table), Some (Some demo_table))"
    using u by blast
  show ?thesis
    by (intro conjI) (fact 1 2 3 4 5)+
qed

subsection \<open>Country names\<close>

text \<open>
  C4 does not hold of the code for a missing code cell. \<^verbatim>\<open>get_country_name\<close> returns
  the name of the record for a code the lookup finds (\<^verbatim>\<open>BE\<close>) and the code itself for
  a string the lookup does not find (\<^verbatim>\<open>XK\<close>); but on a missing cell, which is what
  \<^verbatim>\<open>pd.read_csv\<close> makes of Namibia's code \<^verbatim>\<open>NA\<close> or of an empty field, the lookup
  raises \<^verbatim>\<open>LookupError\<close>, the \<^verbatim>\<open>except AttributeError\<close> clause does not catch it, and
  the whole of \<^verbatim>\<open>load_data\<close> raises, on a source whose other row is resolvable.
\<close>

theorem get_country_name_missing_code_raises:
  "get_country_name demo_countries (Str ''BE'') = Inr (Str ''Belgium'') \<and>
   get_country_name demo_countries (Str ''XK'') = Inr (Str ''XK'') \<and>
   get_country_name demo_countries NaN = Inl LookupError \<and>
   load_data demo_countries demo_missing_code = Inl LookupError \<and>
   cached_load_data demo_countries demo_missing_code None = (Inl LookupError, None)"
proof -
  have 1: "get_country_name demo_countries (Str ''BE'') = Inr (Str ''Belgium'')"
    by (simp add: get_country_name_def countries_get_def getattr_name_def demo_countries_def)
  have 2: "get_country_name demo_countries (Str ''XK'') = Inr (Str ''XK'')"
    by (simp add: get_country_name_def countries_get_def getattr_name_def demo_countries_def)
  have 3: "get_country_name demo_countries NaN = Inl LookupError"
    by (simp add: get_country_name_def countries_get_def)
  have 4: "load_data demo_countries demo_missing_code = Inl LookupError"
    by (simp add: load_data_def read_csv_def demo_missing_code_def normalize_def Let_def
        setitem_question_def series_replace_def get_country_name_def countries_get_def
        getattr_name_def demo_countries_def)
  have 5: "cached_load_data demo_countries demo_missing_code None = (Inl LookupError, None)"
    by (simp add: cached_load_data_def st_cache_data_def 4)
  show ?thesis
    by (intro conjI) (fact 1 2 3 4 5)+
qed

text \<open>For string cells the function is total, and a missing cell is the only way the
  resolution of names makes \<^verbatim>\<open>load_data\<close> raise.\<close>

lemma get_country_name_total_on_strings:
  "\<exists>n. get_country_name cg (Str s) = Inr (Str n) \<and> (n = s \<or> (\<exists>k. cg s = Some k \<and> n = name k))"
  by (cases "cg s") (simp_all add: get_country_name_Str)

lemma load_data_raises_LookupError_iff:
  "load_data cg fs = Inl LookupError
     \<longleftrightarrow> (\<exists>df. fs csv_path = Some (Rows df) \<and> NaN \<in> code ` set df)"
proof (cases "fs csv_path")
  case None
  then show ?thesis using load_data_absent [of fs cg] by simp
next
  case (Some f)
  show ?thesis
  proof (cases f)
    case (Unreadable tag)
    then show ?thesis using Some load_data_Unreadable [of fs tag cg] by simp
  next
    case (Rows df)
    show ?thesis
    proof (cases "NaN \<in> code ` set df")
      case True
      then show ?thesis using Some Rows load_data_Rows_NaN [of fs df cg] by simp
    next
      case False
      then show ?thesis using Some Rows load_data_Rows [of fs df cg] by simp
    qed
  qed
qed

subsection \<open>Row count\<close>

text \<open>
  C6. The table \<^verbatim>\<open>load_data\<close> returns (it returns one when no code cell of the source
  is missing) has as many rows as the source, and its \<^verbatim>\<open>code\<close> and \<^verbatim>\<open>acceptance\<close>
  columns are those of the source, row by row: no row is dropped, duplicated or moved.
\<close>

theorem load_data_row_count:
  assumes "fs csv_path = Some (Rows src)" and "NaN \<notin> code ` set src"
  shows "\<exists>t. load_data cg fs = Inr (Some t) \<and> length t = length src \<and>
           map code t = map code src \<and> map acceptance t = map acceptance src"
proof -
  let ?t = "map (row_of cg) src"
  have ld: "load_data cg fs = Inr (Some ?t)" using assms by (rule load_data_Rows)
  have len: "length ?t = length src" by simp
  have c: "map code ?t = map code src" by (simp add: row_of_sel o_def)
  have a: "map acceptance ?t = map acceptance src" by (simp add: row_of_sel o_def)
  show ?thesis
    by (intro exI [of _ ?t] conjI) (fact ld len c a)+
qed

theorem load_data_row_count_witness:
  "demo_fs csv_path = Some (Rows demo_rows) \<and>
   (\<exists>t. load_data demo_countries demo_fs = Inr (Some t) \<and> length t = 3)"
proof -
  have a: "demo_fs csv_path = Some (Rows demo_rows)" by (simp add: demo_fs_def)
  have l: "length demo_rows = 3" by (simp add: demo_rows_def)
  show ?thesis
    using load_data_row_count
            [where fs = demo_fs and src = demo_rows and cg = demo_countries, OF a demo_rows_codes] a
    unfolding l by (elim exE conjE) (intro conjI exI, assumption+)
qed

subsection \<open>Filtering by question\<close>

lemma demo_table_loaded: "load_data demo_countries demo_fs = Inr (Some demo_table)"
proof -
  have "demo_fs csv_path = Some (Rows demo_rows)" by (simp add: demo_fs_def)
  then have "load_data demo_countries demo_fs = Inr (Some (map (row_of demo_countries) demo_rows))"
    by (rule load_data_Rows) (rule demo_rows_codes)
  moreover have "map (row_of demo_countries) demo_rows = demo_table"
    by (simp add: demo_rows_def demo_table_def row_of_def demo_countries_def dict_def
        question_mapping_def code_mapping_def)
  ultimately show ?thesis by simp
qed

lemma getitem_mask_map: "getitem_mask df (map P df) = filter P df"
  by (induction df) (simp_all add: getitem_mask_def)

lemma df_filtered_eq: "df_filtered df sel = filter (\<lambda>r. question r = sel) df"
  by (simp add: df_filtered_def series_eq_def getitem_mask_map o_def)

lemma count_list_filter:
  "count_list (filter P xs) x = (if P x then count_list xs x else 0)"
  by (induction xs) auto

text \<open>
  C5. \<^verbatim>\<open>df[df['question'] == selected_question]\<close> is the list of the rows of the
  table whose \<^verbatim>\<open>question\<close> is the selected label, in the order of the table: it is a
  subsequence of the table, a row with the label occurs in it as often as in the table, a
  row with another label does not occur, and when no row has the label the result is the
  empty frame.
\<close>

theorem df_filtered_exact:
  "df_filtered df sel = filter (\<lambda>r. question r = sel) df \<and>
   subseq (df_filtered df sel) df \<and>
   (\<forall>r. count_list (df_filtered df sel) r = (if question r = sel then count_list df r else 0)) \<and>
   ((\<forall>r \<in> set df. question r \<noteq> sel) \<longrightarrow> df_filtered df sel = [])"
  unfolding df_filtered_eq
  by (intro conjI allI impI refl subseq_filter_left count_list_filter) (simp add: filter_empty_conv)

theorem df_filtered_exact_witness:
  "df_filtered demo_table ''Equal rights for gay, lesbian, and bisexual people'' = take 2 demo_table \<and>
   ''Adoption rights for same-sex couples'' \<notin> set (map question demo_table) \<and>
   df_filtered demo_table ''Adoption rights for same-sex couples'' = []"
proof -
  have a: "\<forall>r \<in> set demo_table. question r \<noteq> ''Adoption rights for same-sex couples''"
    by (simp add: demo_table_def)
  have b: "filter (\<lambda>r. question r = ''Equal rights for gay, lesbian, and bisexual people'') demo_table
             = take 2 demo_table"
    by (simp add: demo_table_def)
  have c: "''Adoption rights for same-sex couples'' \<notin> set (map question demo_table)"
    by (simp add: demo_table_def)
  show ?thesis
    using df_filtered_exact [of demo_table "''Equal rights for gay, lesbian, and bisexual people''"]
      df_filtered_exact [of demo_table "''Adoption rights for same-sex couples''"] a b c
    by simp
qed

subsection \<open>The display table\<close>

lemma mset_sort_values_desc: "mset (sort_values_desc df) = mset df"
  by (simp add: sort_values_desc_def)

lemma sorted_sort_values_desc:
  "sorted_wrt (\<lambda>a b. Acceptance b \<le> Acceptance a) (sort_values_desc df)"
proof -
  have "sorted (map Acceptance (sort_key Acceptance (rev df)))"
    by (rule sorted_sort_key)
  then have "sorted_wrt (\<lambda>a b. Acceptance a \<le> Acceptance b) (sort_key Acceptance (rev df))"
    by (simp add: sorted_wrt_map)
  then show ?thesis
    by (simp add: sort_values_desc_def sorted_wrt_rev)
qed

lemma add_percent_eq:
  "add_percent f df = map (\<lambda>r. \<lparr>Country = Country r, Acceptance = f (Acceptance r) @ ''%''\<rparr>) df"
  by (simp add: add_percent_def setitem_Acceptance_def series_add_def series_astype_str_def
      map2_same o_def)

lemma mset_projection:
  "mset (rename_columns (getitem_columns flt))
     = image_mset (\<lambda>r. \<lparr>Country = country_name r, Acceptance = acceptance r\<rparr>) (mset flt)"
  by (simp add: rename_columns_def getitem_columns_def o_def flip: mset_map)

text \<open>
  C7. The display table of a filtered frame is obtained from a rearrangement \<open>ys\<close> of
  its rows projected to \<^verbatim>\<open>Country\<close> and \<^verbatim>\<open>Acceptance (%)\<close>, in which no row has a
  smaller acceptance than a later one, by replacing each acceptance with its printed form
  followed by a percent sign. On the demo table (Germany 84.5 before Belgium 91.0) the
  display rows are Belgium \<^verbatim>\<open>91.0%\<close>, then Germany \<^verbatim>\<open>84.5%\<close>.
\<close>

theorem df_display_sorted_percent:
  "\<exists>ys. mset ys = image_mset (\<lambda>r. \<lparr>Country = country_name r, Acceptance = acceptance r\<rparr>) (mset flt) \<and>
        sorted_wrt (\<lambda>a b. Acceptance b \<le> Acceptance a) ys \<and>
        df_display astype_str flt
          = map (\<lambda>r. \<lparr>Country = Country r, Acceptance = astype_str (Acceptance r) @ ''%''\<rparr>) ys"
proof -
  let ?ys = "sort_values_desc (rename_columns (getitem_columns flt))"
  have m: "mset ?ys = image_mset (\<lambda>r. \<lparr>Country = country_name r, Acceptance = acceptance r\<rparr>) (mset flt)"
    by (simp only: mset_sort_values_desc mset_projection)
  have s: "sorted_wrt (\<lambda>a b. Acceptance b \<le> Acceptance a) ?ys"
    by (rule sorted_sort_values_desc)
  have d: "df_display astype_str flt
          = map (\<lambda>r. \<lparr>Country = Country r, Acceptance = astype_str (Acceptance r) @ ''%''\<rparr>) ?ys"
    by (simp only: df_display_def add_percent_eq)
  show ?thesis
    by (intro exI [of _ ?ys] conjI) (fact m s d)+
qed

lemma df_display_demo:
  "df_display demo_astype_str (df_filtered demo_table ''Equal rights for gay, lesbian, and bisexual people'')
     = [\<lparr>Country = Str ''Belgium'', Acceptance = ''91.0%''\<rparr>, \<lparr>Country = Str ''Germany'', Acceptance = ''84.5%''\<rparr>]"
  by (simp add: df_filtered_eq demo_table_def df_display_def add_percent_eq sort_values_desc_def
      rename_columns_def getitem_columns_def demo_astype_str_def)

theorem df_display_sorted_percent_witness:
  "(\<exists>ys. mset ys = image_mset (\<lambda>r. \<lparr>Country = country_name r, Acceptance = acceptance r\<rparr>)
                    (mset (df_filtered demo_table ''Equal rights for gay, lesbian, and bisexual people'')) \<and>
         sorted_wrt (\<lambda>a b. Acceptance b \<le> Acceptance a) ys \<and>
         df_display demo_astype_str
             (df_filtered demo_table ''Equal rights for gay, lesbian, and bisexual people'')
           = map (\<lambda>r. \<lparr>Country = Country r, Acceptance = demo_astype_str (Acceptance r) @ ''%''\<rparr>) ys) \<and>
   df_display demo_astype_str (df_filtered demo_table ''Equal rights for gay, lesbian, and bisexual people'')
     = [\<lparr>Country = Str ''Belgium'', Acceptance = ''91.0%''\<rparr>, \<lparr>Country = Str ''Germany'', Acceptance = ''84.5%''\<rparr>]"
  using df_display_sorted_percent
          [of "df_filtered demo_table ''Equal rights for gay, lesbian, and bisexual people''" demo_astype_str]
    df_display_demo
  by (intro conjI) assumption+

subsection \<open>The loaded table is not written to\<close>

lemma deref_append_new: "deref (h @ [f]) (length h) = Some f"
  by (simp add: deref_def)

lemma select_question_eq:
  assumes "deref h df = Some (Norm t)"
  shows "select_question f df sel h
           = Some (h @ [Norm (df_filtered t sel),
                        Cols (getitem_columns (df_filtered t sel)),
                        Disp_num (rename_columns (getitem_columns (df_filtered t sel))),
                        Disp_str (df_display f (df_filtered t sel))])"
proof -
  let ?flt = "df_filtered t sel"
  define h1 where "h1 = h @ [Norm ?flt]"
  define h2 where "h2 = h1 @ [Cols (getitem_columns ?flt)]"
  define h3 where "h3 = h2 @ [Disp_num (rename_columns (getitem_columns ?flt))]"
  define h4 where "h4 = h3 @ [Disp_num (sort_values_desc (rename_columns (getitem_columns ?flt)))]"
  have s1: "store_filter h df sel = Some (h1, length h)"
    using assms by (simp add: store_filter_def alloc_def h1_def)
  have s2: "store_getitem_columns h1 (length h) = Some (h2, length h1)"
    unfolding h1_def h2_def
    by (simp only: store_getitem_columns_def deref_append_new alloc_def option.case frame.case)
  have s3: "store_rename h2 (length h1) = Some (h3, length h2)"
    unfolding h2_def h3_def
    by (simp only: store_rename_def deref_append_new alloc_def option.case frame.case)
  have s4: "store_sort_values h3 (length h2) = Some (h4, length h3)"
    unfolding h3_def h4_def
    by (simp only: store_sort_values_def deref_append_new alloc_def option.case frame.case)
  have s5: "store_add_percent f h4 (length h3) = Some (h3 @ [Disp_str (df_display f ?flt)])"
    unfolding h4_def
    by (simp only: store_add_percent_def deref_append_new option.case frame.case
        list_update_length df_display_def)
  have "select_question f df sel h = Some (h3 @ [Disp_str (df_display f ?flt)])"
    unfolding select_question_def
    by (simp only: s1 s2 s3 s4 s5 bind.bind_lunit prod.case)
  then show ?thesis
    by (simp add: h1_def h2_def h3_def)
qed

text \<open>
  C9. With the loaded table at address \<open>df\<close> of the store, any sequence of selections
  runs to the end, and afterwards the store still holds the same table at \<open>df\<close>;
  indeed every object that was in the store before is unchanged. Each selection appends
  four new frames, and the percent conversion overwrites the last of them only.
\<close>

theorem selections_preserve_loaded_table:
  assumes "deref h df = Some (Norm t)"
  shows "\<exists>h'. selections astype_str df sels h = Some h' \<and>
              deref h' df = Some (Norm t) \<and> take (length h) h' = h"
  using assms
proof (induction sels arbitrary: h)
  case Nil
  then show ?case by simp
next
  case (Cons sel sels)
  let ?new = "[Norm (df_filtered t sel),
               Cols (getitem_columns (df_filtered t sel)),
               Disp_num (rename_columns (getitem_columns (df_filtered t sel))),
               Disp_str (df_display astype_str (df_filtered t sel))]"
  have step: "select_question astype_str df sel h = Some (h @ ?new)"
    using Cons.prems by (rule select_question_eq)
  have df: "df < length h"
    using Cons.prems by (simp add: deref_def split: if_splits)
  have kept: "deref (h @ ?new) df = Some (Norm t)"
    using Cons.prems df by (simp add: deref_def nth_append)
  from Cons.IH [OF kept] obtain h' where
    run: "selections astype_str df sels (h @ ?new) = Some h'" and
    d: "deref h' df = Some (Norm t)" and
    tk: "take (length (h @ ?new)) h' = h @ ?new"
    by (elim exE conjE)
  have "take (length h) h' = take (length h) (take (length (h @ ?new)) h')"
    by (simp add: min_def)
  also have "\<dots> = h"
    unfolding tk by simp
  finally have tk': "take (length h) h' = h" .
  have run': "selections astype_str df (sel # sels) h = Some h'"
    by (simp add: step run)
  show ?case
    by (intro exI [of _ h'] conjI) (fact run' d tk')+
qed

theorem selections_preserve_loaded_table_witness:
  "deref demo_store 0 = Some (Norm demo_table) \<and>
   (\<exists>h'. selections demo_astype_str 0
            [''Equal rights for gay, lesbian, and bisexual people'',
             ''Adoption rights for same-sex couples''] demo_store = Some h' \<and>
         deref h' 0 = Some (Norm demo_table) \<and> take (length demo_store) h' = demo_store)"
proof -
  have a: "deref demo_store 0 = Some (Norm demo_table)"
    by (simp add: deref_def demo_store_def)
  show ?thesis
    using selections_preserve_loaded_table [OF a, of demo_astype_str] a
    by (intro conjI) assumption+
qed

end
